theory Spec2Isabelle
  imports Complex_Main "HOL-Library.Word"
begin

unbundle bit_operations_syntax

section \<open>Python values used by the application\<close>

text \<open>
  Form values and stored columns are Python strings. They are modelled as HOL strings;
  \<open>str.upper\<close> is modelled on the ASCII letters, which is where the application uses it
  (Base32 text). \<open>s.replace(' ', '')\<close> deletes every ASCII space of \<open>s\<close>.
\<close>

definition upper_char :: "char \<Rightarrow> char" where
  "upper_char c =
     (if 97 \<le> (of_char c :: nat) \<and> (of_char c :: nat) \<le> 122
      then char_of ((of_char c :: nat) - 32) else c)"

definition str_upper :: "string \<Rightarrow> string" where
  "str_upper s = map upper_char s"

definition str_remove_spaces :: "string \<Rightarrow> string" where
  "str_remove_spaces s = filter (\<lambda>c. c \<noteq> CHR '' '') s"

text \<open>
  \<open>int(x)\<close> on a float drops the fractional part: it rounds towards zero, so it is the
  floor of a non-negative number and the ceiling of a negative one. Python's \<open>%\<close> with a
  positive right operand is HOL's \<open>mod\<close> on \<open>int\<close>.
\<close>

definition py_int :: "real \<Rightarrow> int" where
  "py_int x = (if 0 \<le> x then \<lfloor>x\<rfloor> else \<lceil>x\<rceil>)"

section \<open>The account model (models.py)\<close>

text \<open>
  One row of the table \<open>mfa_accounts\<close>. The primary key \<open>id\<close> is called \<open>account_id\<close>
  here (\<open>id\<close> is the identity function of HOL). The two timestamp columns take part in no
  operation below and are left out. The issuer column is nullable, but both places that
  write it supply a string, and a constructor call without an issuer leaves the column to
  its default \<open>'MFA Manager'\<close>.
\<close>

record MFAAccount =
  account_id :: nat
  account_name :: string
  secret :: string
  issuer :: string
  hidden :: bool

text \<open>
  \<open>MFAAccount.__init__\<close> followed by the insert: the constructor sets the name and the
  secret, and the issuer only when it is truthy; the insert fills the key and the column
  defaults (\<open>issuer = 'MFA Manager'\<close>, \<open>hidden = False\<close>).
\<close>

definition MFAAccount_init :: "nat \<Rightarrow> string \<Rightarrow> string \<Rightarrow> string option \<Rightarrow> MFAAccount" where
  "MFAAccount_init new_id name sec iss =
     \<lparr>account_id = new_id, account_name = name, secret = sec,
      issuer = (case iss of None \<Rightarrow> ''MFA Manager''
                | Some i \<Rightarrow> if i = [] then ''MFA Manager'' else i),
      hidden = False\<rparr>"

text \<open>
  \<open>pyotp.TOTP(secret)\<close> builds an object around the secret text. The library is not
  among the sources; the model takes its constructor to succeed on every text and to do
  nothing but store it, so that decoding happens only when a code is asked for.
\<close>

record TOTP =
  totp_secret :: string

definition TOTP_new :: "string \<Rightarrow> TOTP" where
  "TOTP_new s = \<lparr>totp_secret = s\<rparr>"

text \<open>
  \<open>get_remaining_time\<close> has no parameter but \<open>self\<close>. It reads the system clock:
  \<open>datetime.now().timestamp()\<close> is the second argument \<open>now\<close> of the model, the clock
  reading at the moment of the call. The \<open>TOTP\<close> object it builds is not used in the
  result, and the step is the literal 30.
\<close>

definition get_remaining_time :: "MFAAccount \<Rightarrow> real \<Rightarrow> int" where
  "get_remaining_time self now =
     (let totp = TOTP_new (secret self) in 30 - (py_int now mod 30))"

text \<open>
  \<open>get_totp_code\<close> has no parameter but \<open>self\<close> either: it returns
  \<open>pyotp.TOTP(self.secret).now()\<close>, and \<open>now()\<close> reads the system clock inside the library.
  The library is not among the sources, so its \<open>now()\<close> is a parameter of the model, a
  function of the object and of the clock reading at the moment of the call.
\<close>

definition get_totp_code :: "(TOTP \<Rightarrow> real \<Rightarrow> 'c) \<Rightarrow> MFAAccount \<Rightarrow> real \<Rightarrow> 'c" where
  "get_totp_code lib_now self now = (let totp = TOTP_new (secret self) in lib_now totp now)"

section \<open>The request handlers that write the table (app.py)\<close>

text \<open>
  The table is the list of its rows. A submitted form is read with \<open>request.form.get\<close>,
  which gives \<open>None\<close> for a missing field (or the default passed to it).
\<close>

type_synonym table = "MFAAccount list"

record form =
  form_account_name :: "string option"
  form_secret :: "string option"
  form_issuer :: "string option"
  form_hidden :: "string option"

datatype http_method = GET | POST

datatype flash =
  Required_missing | Invalid_secret_format | Name_exists | Commit_error
  | Added | Updated | Deleted | Toggled

datatype response = Rendered "flash option" | Redirected flash | Not_found

definition form_get :: "string option \<Rightarrow> string \<Rightarrow> string" where
  "form_get v dflt = (case v of None \<Rightarrow> dflt | Some s \<Rightarrow> s)"

text \<open>\<open>not v\<close> for a form value: true of \<open>None\<close> and of the empty string.\<close>

definition falsy :: "string option \<Rightarrow> bool" where
  "falsy v = (case v of None \<Rightarrow> True | Some s \<Rightarrow> s = [])"

text \<open>\<open>MFAAccount.query.filter_by(account_name=name).first()\<close>\<close>

definition first_by_name :: "string \<Rightarrow> table \<Rightarrow> MFAAccount option" where
  "first_by_name name db = find (\<lambda>a. account_name a = name) db"

text \<open>\<open>MFAAccount.query.get_or_404(account_id)\<close>: \<open>None\<close> stands for the 404 response.\<close>

definition get_or_404 :: "nat \<Rightarrow> table \<Rightarrow> MFAAccount option" where
  "get_or_404 aid db = find (\<lambda>a. account_id a = aid) db"

text \<open>The key the database gives a new row: one more than the largest key in the table.\<close>

definition next_id :: "table \<Rightarrow> nat" where
  "next_id db = Suc (fold max (map account_id db) 0)"

text \<open>The normalisation both handlers apply before storing: \<open>secret.upper().replace(' ', '')\<close>.\<close>

definition normalize_secret :: "string \<Rightarrow> string" where
  "normalize_secret s = str_remove_spaces (str_upper s)"

text \<open>
  \<open>add_account\<close>. Two things are decided outside the repository and are inputs of the
  model: \<open>secret_ok\<close> says that \<open>pyotp.TOTP(secret).now()\<close>, called on the secret as typed,
  returns without raising, and \<open>commit_ok\<close> says that \<open>db.session.commit()\<close> succeeds (on
  failure the session is rolled back and the table is unchanged). The checks are in the
  order of the source: required fields, the secret as typed, the name, then the insert of
  the normalised secret.
\<close>

definition add_account ::
  "bool \<Rightarrow> bool \<Rightarrow> http_method \<Rightarrow> form \<Rightarrow> table \<Rightarrow> response \<times> table" where
  "add_account secret_ok commit_ok meth frm db =
     (if meth = POST then
        (if falsy (form_account_name frm) \<or> falsy (form_secret frm)
         then (Rendered (Some Required_missing), db)
         else if \<not> secret_ok
         then (Rendered (Some Invalid_secret_format), db)
         else if first_by_name (form_get (form_account_name frm) []) db \<noteq> None
         then (Rendered (Some Name_exists), db)
         else if commit_ok
         then (Redirected Added,
               db @ [MFAAccount_init (next_id db) (form_get (form_account_name frm) [])
                       (normalize_secret (form_get (form_secret frm) []))
                       (Some (form_get (form_issuer frm) ''MFA Manager''))])
         else (Rendered (Some Commit_error), db))
      else (Rendered None, db))"

text \<open>
  \<open>edit_account\<close>: the row is looked up first (404 when absent); a POST runs the same
  checks, the name check only when the name changes, and then updates the row whose key
  is \<open>aid\<close>. The checkbox \<open>hidden\<close> is set exactly when the form sends \<open>'on'\<close>.
\<close>

definition edit_account ::
  "bool \<Rightarrow> bool \<Rightarrow> nat \<Rightarrow> http_method \<Rightarrow> form \<Rightarrow> table \<Rightarrow> response \<times> table" where
  "edit_account secret_ok commit_ok aid meth frm db =
     (case get_or_404 aid db of
        None \<Rightarrow> (Not_found, db)
      | Some account \<Rightarrow>
          if meth = POST then
            (if falsy (form_account_name frm) \<or> falsy (form_secret frm)
             then (Rendered (Some Required_missing), db)
             else if \<not> secret_ok
             then (Rendered (Some Invalid_secret_format), db)
             else if form_get (form_account_name frm) [] \<noteq> account_name account
                     \<and> first_by_name (form_get (form_account_name frm) []) db \<noteq> None
             then (Rendered (Some Name_exists), db)
             else if commit_ok
             then (Redirected Updated,
                   map (\<lambda>a. if account_id a = aid
                            then a\<lparr>account_name := form_get (form_account_name frm) [],
                                   secret := normalize_secret (form_get (form_secret frm) []),
                                   issuer := form_get (form_issuer frm) ''MFA Manager'',
                                   hidden := (form_hidden frm = Some ''on'')\<rparr>
                            else a) db)
             else (Rendered (Some Commit_error), db))
          else (Rendered None, db))"

text \<open>\<open>toggle_hidden\<close> and \<open>delete_account\<close>, the two other handlers that write the table.\<close>

definition toggle_hidden :: "bool \<Rightarrow> nat \<Rightarrow> table \<Rightarrow> response \<times> table" where
  "toggle_hidden commit_ok aid db =
     (case get_or_404 aid db of
        None \<Rightarrow> (Not_found, db)
      | Some account \<Rightarrow>
          if commit_ok
          then (Redirected Toggled,
                map (\<lambda>a. if account_id a = aid then a\<lparr>hidden := \<not> hidden a\<rparr> else a) db)
          else (Redirected Commit_error, db))"

definition delete_account :: "bool \<Rightarrow> nat \<Rightarrow> table \<Rightarrow> response \<times> table" where
  "delete_account commit_ok aid db =
     (case get_or_404 aid db of
        None \<Rightarrow> (Not_found, db)
      | Some account \<Rightarrow>
          if commit_ok
          then (Redirected Deleted, filter (\<lambda>a. account_id a \<noteq> aid) db)
          else (Redirected Commit_error, db))"

text \<open>
  The tables the application can reach: it starts with the empty table that
  \<open>db.create_all()\<close> makes, and every request runs one handler.
\<close>

inductive reachable :: "table \<Rightarrow> bool" where
  reachable_init: "reachable []"
| reachable_add:
    "reachable db \<Longrightarrow> reachable (snd (add_account secret_ok commit_ok meth frm db))"
| reachable_edit:
    "reachable db \<Longrightarrow> reachable (snd (edit_account secret_ok commit_ok aid meth frm db))"
| reachable_toggle:
    "reachable db \<Longrightarrow> reachable (snd (toggle_hidden commit_ok aid db))"
| reachable_delete:
    "reachable db \<Longrightarrow> reachable (snd (delete_account commit_ok aid db))"

section \<open>The one-time-password engine\<close>

text \<open>
  \<open>get_totp_code\<close> hands the stored secret to \<open>pyotp\<close>, a library that is not part of the
  repository's sources. The engine below, ending in \<open>totp_now\<close> to stand for the library's
  \<open>now()\<close>, is therefore written from the specification (sections 4.1 and 4.2) and from
  the standards it names: Base32 of RFC 4648, SHA-1 and HMAC, and the dynamic truncation of
  RFC 4226. Bytes are 8-bit words, SHA-1 works on 32-bit words, the counter is a 64-bit
  word.
\<close>

type_synonym byte = "8 word"
type_synonym word32 = "32 word"

text \<open>Modelled from the spec: the error taxonomy of section 7, as far as the engine raises it.\<close>

datatype error = InvalidSecret | InvalidParameter

subsection \<open>Secret codec\<close>

text \<open>Modelled from the spec: the Base32 alphabet \<open>A-Z2-7\<close> of the Secret Codec.\<close>

definition b32_alphabet :: string where
  "b32_alphabet = ''ABCDEFGHIJKLMNOPQRSTUVWXYZ234567''"

text \<open>
  Modelled from the spec: the value of a Base32 character is its place in the alphabet,
  0 to 25 for the letters and 26 to 31 for the digits 2 to 7.
\<close>

definition b32_value :: "char \<Rightarrow> nat" where
  "b32_value c =
     (if 65 \<le> (of_char c :: nat) \<and> (of_char c :: nat) \<le> 90
      then (of_char c :: nat) - 65 else (of_char c :: nat) - 24)"

text \<open>Modelled from the spec: whitespace is the space and the control characters 9 to 13.\<close>

definition is_whitespace :: "char \<Rightarrow> bool" where
  "is_whitespace c = ((of_char c :: nat) = 32 \<or> (9 \<le> (of_char c :: nat) \<and> (of_char c :: nat) \<le> 13))"

text \<open>Modelled from the spec: stripping removes the whitespace at both ends of the text.\<close>

definition strip :: "string \<Rightarrow> string" where
  "strip s = rev (dropWhile is_whitespace (rev (dropWhile is_whitespace s)))"

text \<open>Modelled from the spec: padding is removed transparently, so trailing \<open>=\<close> signs are dropped.\<close>

definition strip_padding :: "string \<Rightarrow> string" where
  "strip_padding s = rev (dropWhile (\<lambda>c. c = CHR ''='') (rev s))"

text \<open>
  Modelled from the spec: \<open>normalize\<close> of the Secret Codec strips whitespace, upper-cases
  and validates against the alphabet; it fails with \<open>InvalidSecret\<close> on an input that is
  empty after stripping or has a character outside the alphabet.
\<close>

definition normalize :: "string \<Rightarrow> error + string" where
  "normalize raw =
     (if strip_padding (str_upper (strip raw)) = [] then Inl InvalidSecret
      else if list_all (\<lambda>c. c \<in> set b32_alphabet) (strip_padding (str_upper (strip raw)))
      then Inr (strip_padding (str_upper (strip raw)))
      else Inl InvalidSecret)"

text \<open>Modelled from the spec: a Base32 value is five bits, most significant first.\<close>

definition bits5 :: "nat \<Rightarrow> bool list" where
  "bits5 v = map (\<lambda>i. odd (v div 2 ^ i)) [4, 3, 2, 1, 0]"

text \<open>Modelled from the spec: the byte that eight bits spell, most significant first.\<close>

definition byte_of_bits :: "bool list \<Rightarrow> byte" where
  "byte_of_bits bs = foldl (\<lambda>acc b. 2 * acc + (if b then 1 else 0)) 0 bs"

text \<open>Modelled from the spec: the bits are cut into bytes; an incomplete last byte is dropped.\<close>

fun bytes_of_bits :: "bool list \<Rightarrow> byte list" where
  "bytes_of_bits (b7 # b6 # b5 # b4 # b3 # b2 # b1 # b0 # rest) =
     byte_of_bits [b7, b6, b5, b4, b3, b2, b1, b0] # bytes_of_bits rest"
| "bytes_of_bits _ = []"

text \<open>
  Modelled from the spec: \<open>decode\<close> of the Secret Codec, on a normalised secret: the bytes
  that its characters spell, which is what decoding the re-padded text gives.
\<close>

definition decode :: "string \<Rightarrow> byte list" where
  "decode s = bytes_of_bits (concat (map (\<lambda>c. bits5 (b32_value c)) s))"

text \<open>
  Modelled from the spec: the key of a secret text, \<open>decode (normalize raw)\<close>, failing with
  \<open>InvalidSecret\<close> also when the text decodes to zero bytes.
\<close>

definition secret_key :: "string \<Rightarrow> error + byte list" where
  "secret_key raw =
     (case normalize raw of
        Inl e \<Rightarrow> Inl e
      | Inr s \<Rightarrow> if decode s = [] then Inl InvalidSecret else Inr (decode s))"

subsection \<open>SHA-1 and HMAC\<close>

text \<open>
  The OTP Algorithm of the specification is HMAC-SHA1. SHA-1 follows FIPS 180 and HMAC
  follows RFC 2104.
\<close>

text \<open>Modelled from the spec: SHA-1's rotation of a 32-bit word to the left.\<close>

definition rotl32 :: "nat \<Rightarrow> word32 \<Rightarrow> word32" where
  "rotl32 n x = push_bit n x OR drop_bit (32 - n) x"

text \<open>Modelled from the spec: SHA-1's round function, one of three by the round number.\<close>

definition sha1_f :: "nat \<Rightarrow> word32 \<Rightarrow> word32 \<Rightarrow> word32 \<Rightarrow> word32" where
  "sha1_f t b c d =
     (if t < 20 then (b AND c) OR (NOT b AND d)
      else if t < 40 then b XOR c XOR d
      else if t < 60 then (b AND c) OR (b AND d) OR (c AND d)
      else b XOR c XOR d)"

text \<open>Modelled from the spec: SHA-1's round constant.\<close>

definition sha1_k :: "nat \<Rightarrow> word32" where
  "sha1_k t =
     (if t < 20 then 0x5A827999
      else if t < 40 then 0x6ED9EBA1
      else if t < 60 then 0x8F1BBCDC
      else 0xCA62C1D6)"

text \<open>Modelled from the spec: four bytes read as a big-endian 32-bit word.\<close>

definition be32 :: "byte \<Rightarrow> byte \<Rightarrow> byte \<Rightarrow> byte \<Rightarrow> word32" where
  "be32 a b c d = push_bit 24 (ucast a) OR push_bit 16 (ucast b) OR push_bit 8 (ucast c) OR ucast d"

text \<open>Modelled from the spec: a byte string read as big-endian words, four bytes each.\<close>

fun words_of_bytes :: "byte list \<Rightarrow> word32 list" where
  "words_of_bytes (a # b # c # d # rest) = be32 a b c d # words_of_bytes rest"
| "words_of_bytes _ = []"

text \<open>Modelled from the spec: the four bytes of a 32-bit word, big-endian.\<close>

definition bytes_of_word32 :: "word32 \<Rightarrow> byte list" where
  "bytes_of_word32 w = [ucast (drop_bit 24 w), ucast (drop_bit 16 w), ucast (drop_bit 8 w), ucast w]"

text \<open>
  Modelled from the spec: the eight bytes of a 64-bit word, big-endian; this is also how
  \<open>hotp\<close> writes its counter.
\<close>

definition bytes_of_word64 :: "64 word \<Rightarrow> byte list" where
  "bytes_of_word64 w =
     [ucast (drop_bit 56 w), ucast (drop_bit 48 w), ucast (drop_bit 40 w), ucast (drop_bit 32 w),
      ucast (drop_bit 24 w), ucast (drop_bit 16 w), ucast (drop_bit 8 w), ucast w]"

text \<open>
  Modelled from the spec: SHA-1 padding, a \<open>0x80\<close> byte, zeros up to 56 modulo 64 and the
  bit length as eight big-endian bytes.
\<close>

definition sha1_pad :: "byte list \<Rightarrow> byte list" where
  "sha1_pad m = m @ [0x80] @ replicate ((119 - length m mod 64) mod 64) 0
                  @ bytes_of_word64 (of_nat (8 * length m))"

text \<open>
  Modelled from the spec: SHA-1's message schedule, kept as a window of sixteen words
  \<open>w t, \<dots>, w (t + 15)\<close>; the next word is
  \<open>rotl 1 (w (t + 13) XOR w (t + 8) XOR w (t + 2) XOR w t)\<close>.
\<close>

definition sha1_next :: "word32 list \<Rightarrow> word32" where
  "sha1_next win = rotl32 1 (win ! 13 XOR win ! 8 XOR win ! 2 XOR win ! 0)"

type_synonym sha1_state = "word32 \<times> word32 \<times> word32 \<times> word32 \<times> word32"

text \<open>
  Modelled from the spec: the 80 rounds of one SHA-1 block. Round \<open>t\<close> consumes the head of
  the window and appends word \<open>t + 16\<close> of the schedule.
\<close>

function sha1_rounds :: "nat \<Rightarrow> word32 list \<Rightarrow> sha1_state \<Rightarrow> sha1_state" where
  "sha1_rounds t win (a, b, c, d, e) =
     (if t < 80
      then sha1_rounds (t + 1) (tl win @ [sha1_next win])
             (rotl32 5 a + sha1_f t b c d + e + sha1_k t + hd win, a, rotl32 30 b, c, d)
      else (a, b, c, d, e))"
  by pat_completeness auto
termination
  by (relation "measure (\<lambda>(t, win, s). 80 - t)") auto

declare sha1_rounds.simps [simp del]

text \<open>Modelled from the spec: the working state is added to the chaining value, word by word.\<close>

fun sha1_add :: "sha1_state \<Rightarrow> sha1_state \<Rightarrow> sha1_state" where
  "sha1_add (a, b, c, d, e) (a', b', c', d', e') = (a + a', b + b', c + c', d + d', e + e')"

declare sha1_add.simps [simp del]

text \<open>Modelled from the spec: SHA-1's compression of one block of sixteen words.\<close>

definition sha1_compress :: "sha1_state \<Rightarrow> word32 list \<Rightarrow> sha1_state" where
  "sha1_compress h blk = sha1_add h (sha1_rounds 0 blk h)"

text \<open>Modelled from the spec: the blocks of the padded message are compressed in turn.\<close>

fun sha1_blocks :: "sha1_state \<Rightarrow> word32 list \<Rightarrow> sha1_state" where
  "sha1_blocks h [] = h"
| "sha1_blocks h (w # ws) = sha1_blocks (sha1_compress h (take 16 (w # ws))) (drop 16 (w # ws))"

text \<open>Modelled from the spec: SHA-1's initial chaining value.\<close>

definition sha1_init :: sha1_state where
  "sha1_init = (0x67452301, 0xEFCDAB89, 0x98BADCFE, 0x10325476, 0xC3D2E1F0)"

text \<open>Modelled from the spec: the digest is the final chaining value as twenty bytes.\<close>

fun sha1_output :: "sha1_state \<Rightarrow> byte list" where
  "sha1_output (a, b, c, d, e) =
     bytes_of_word32 a @ bytes_of_word32 b @ bytes_of_word32 c @ bytes_of_word32 d @ bytes_of_word32 e"

text \<open>Modelled from the spec: SHA-1 of a byte string.\<close>

definition sha1 :: "byte list \<Rightarrow> byte list" where
  "sha1 m = sha1_output (sha1_blocks sha1_init (words_of_bytes (sha1_pad m)))"

text \<open>
  Modelled from the spec: the HMAC key block of 64 bytes: a key longer than a block is
  hashed first, and the key is filled up with zeros.
\<close>

definition hmac_key :: "byte list \<Rightarrow> byte list" where
  "hmac_key key =
     (if 64 < length key then sha1 key @ replicate 44 0 else key @ replicate (64 - length key) 0)"

text \<open>Modelled from the spec: HMAC with SHA-1; the inner pad is \<open>0x36\<close>, the outer \<open>0x5C\<close>.\<close>

definition hmac_sha1 :: "byte list \<Rightarrow> byte list \<Rightarrow> byte list" where
  "hmac_sha1 key msg =
     sha1 (map (\<lambda>b. b XOR 0x5C) (hmac_key key) @ sha1 (map (\<lambda>b. b XOR 0x36) (hmac_key key) @ msg))"

subsection \<open>HOTP and TOTP\<close>

text \<open>
  Modelled from the spec: dynamic truncation. The four low bits of the last byte are an
  offset; the four bytes there are read big-endian as a 31-bit unsigned number.
\<close>

definition dynamic_truncate :: "byte list \<Rightarrow> nat" where
  "dynamic_truncate digest =
     unat (be32 (digest ! unat (last digest AND 0x0F) AND 0x7F)
                (digest ! (unat (last digest AND 0x0F) + 1))
                (digest ! (unat (last digest AND 0x0F) + 2))
                (digest ! (unat (last digest AND 0x0F) + 3)))"

text \<open>Modelled from the spec: the character of a decimal digit.\<close>

definition digit_char :: "nat \<Rightarrow> char" where
  "digit_char n = ''0123456789'' ! n"

text \<open>Modelled from the spec: the decimal text of a number, without leading zeros.\<close>

fun decimal :: "nat \<Rightarrow> string" where
  "decimal n = (if n < 10 then [digit_char n] else decimal (n div 10) @ [digit_char (n mod 10)])"

declare decimal.simps [simp del]

text \<open>Modelled from the spec: zero-padding on the left, up to a width.\<close>

definition zero_pad :: "nat \<Rightarrow> string \<Rightarrow> string" where
  "zero_pad width s = replicate (width - length s) (CHR ''0'') @ s"

text \<open>Modelled from the spec: what the properties of section 8 call a decimal digit.\<close>

definition is_digit :: "char \<Rightarrow> bool" where
  "is_digit c = (48 \<le> (of_char c :: nat) \<and> (of_char c :: nat) \<le> 57)"

text \<open>
  Modelled from the spec: the text of a code: the truncated value is reduced modulo
  \<open>10 ^ digits\<close> and the decimal result is zero-padded to \<open>digits\<close> characters.
\<close>

definition format_code :: "nat \<Rightarrow> nat \<Rightarrow> string" where
  "format_code digits v = zero_pad digits (decimal (v mod 10 ^ digits))"

text \<open>
  Modelled from the spec: \<open>hotp(key, counter, digits)\<close> is HMAC-SHA1 of the big-endian
  eight-byte counter, truncated and formatted. A digit count outside 1..10 fails with
  \<open>InvalidParameter\<close>.
\<close>

definition hotp :: "byte list \<Rightarrow> 64 word \<Rightarrow> nat \<Rightarrow> error + string" where
  "hotp key counter digits =
     (if digits < 1 \<or> 10 < digits then Inl InvalidParameter
      else Inr (format_code digits (dynamic_truncate (hmac_sha1 key (bytes_of_word64 counter)))))"

text \<open>
  Modelled from the spec: \<open>totp(key, step_seconds, digits, at_time)\<close> computes the counter
  \<open>floor(at_time / step_seconds)\<close> and delegates to \<open>hotp\<close>; a step of zero fails with
  \<open>InvalidParameter\<close>.
\<close>

definition totp :: "byte list \<Rightarrow> nat \<Rightarrow> nat \<Rightarrow> real \<Rightarrow> error + string" where
  "totp key step_seconds digits at_time =
     (if step_seconds = 0 then Inl InvalidParameter
      else hotp key (word_of_int \<lfloor>at_time / real step_seconds\<rfloor>) digits)"

text \<open>
  Modelled from the spec: what \<open>now()\<close> of a \<open>pyotp.TOTP\<close> object computes at the clock
  reading \<open>now\<close>: \<open>totp\<close> on the decoded secret, with the default step of 30 seconds and
  the default of six digits.
\<close>

definition totp_now :: "TOTP \<Rightarrow> real \<Rightarrow> error + string" where
  "totp_now t now =
     (case secret_key (totp_secret t) of
        Inl e \<Rightarrow> Inl e
      | Inr key \<Rightarrow> totp key 30 6 now)"

section \<open>Concrete inputs and the invariant\<close>

text \<open>Every stored secret is its own normal form.\<close>

definition secrets_normalized :: "table \<Rightarrow> bool" where
  "secrets_normalized db = list_all (\<lambda>a. secret a = normalize_secret (secret a)) db"

text \<open>
  An account whose secret is the Base32 text of the ASCII bytes \<open>12345678901234567890\<close>,
  a form as a user would type it, and the row that form makes in the empty table.
\<close>

definition acct0 :: MFAAccount where
  "acct0 = \<lparr>account_id = 1, account_name = ''alice'',
            secret = ''GEZDGNBVGY3TQOJQGEZDGNBVGY3TQOJQ'', issuer = ''MFA Manager'', hidden = False\<rparr>"

definition form0 :: form where
  "form0 = \<lparr>form_account_name = Some ''alice'', form_secret = Some ''jbsw y3dp ehpk 3pxp'',
            form_issuer = None, form_hidden = None\<rparr>"

definition row0 :: MFAAccount where
  "row0 = \<lparr>account_id = 1, account_name = ''alice'', secret = ''JBSWY3DPEHPK3PXP'',
           issuer = ''MFA Manager'', hidden = False\<rparr>"

text \<open>The key of the RFC 4226 test vectors, the ASCII bytes of \<open>12345678901234567890\<close>.\<close>

definition rfc_key :: "byte list" where
  "rfc_key = map of_char ''12345678901234567890''"

section \<open>The remaining time\<close>

text \<open>
  C10. At one clock reading, \<open>get_remaining_time\<close> returns the same value for every two
  accounts, whatever their secrets, names, issuers or other fields: the step is the literal
  30 and nothing of the account enters the result.
\<close>

theorem remaining_time_same_for_all_accounts:
  "get_remaining_time a1 now = get_remaining_time a2 now
   \<and> get_remaining_time a1 now = 30 - (py_int now mod 30)"
  by (simp add: get_remaining_time_def)

text \<open>
  C3, as the specification states it, gives the remaining time a step parameter and the
  floor of the time. The source has neither: at a step of 60 and time 0 the formula gives
  60 where \<open>get_remaining_time\<close> gives 30, and at half a second before the epoch the floor
  gives 1 where \<open>int()\<close>, which rounds towards zero, gives 30.
\<close>

theorem remaining_time_step_counterexample:
  "\<not> ((0::int) < 60 \<longrightarrow> get_remaining_time acct0 0 = 60 - (\<lfloor>0::real\<rfloor> mod 60))
   \<and> get_remaining_time acct0 (- 1 / 2) \<noteq> 30 - (\<lfloor>- 1 / 2 :: real\<rfloor> mod 30)"
proof -
  have c: "\<lceil>- (1 / 2) :: real\<rceil> = 0" by (simp add: ceiling_eq_iff)
  have f: "\<lfloor>- (1 / 2) :: real\<rfloor> = - 1" by (simp add: floor_eq_iff)
  show ?thesis by (simp add: get_remaining_time_def py_int_def c f)
qed

text \<open>
  C3, amended. With the fixed step of 30 seconds, the remaining time at clock reading
  \<open>now\<close> is \<open>30 - (int(now) mod 30)\<close>; it lies in 1..30 and is never 0; where
  \<open>int(now) mod 30 = 0\<close> it is the full 30; and for a reading that is not negative it is
  \<open>30 - (floor(now) mod 30)\<close>.
\<close>

theorem remaining_time_fixed_step:
  "get_remaining_time self now = 30 - (py_int now mod 30)
   \<and> 1 \<le> get_remaining_time self now \<and> get_remaining_time self now \<le> 30
   \<and> (py_int now mod 30 = 0 \<longrightarrow> get_remaining_time self now = 30)
   \<and> (0 \<le> now \<longrightarrow> get_remaining_time self now = 30 - (\<lfloor>now\<rfloor> mod 30))"
proof -
  have r: "0 \<le> py_int now mod 30" "py_int now mod 30 < 30" by simp_all
  show ?thesis using r by (simp add: get_remaining_time_def Let_def py_int_def)
qed

theorem remaining_time_fixed_step_witness:
  "py_int 60 mod 30 = 0 \<and> (0::real) \<le> 60 \<and> get_remaining_time acct0 60 = 30
   \<and> get_remaining_time acct0 60 = 30 - (\<lfloor>60::real\<rfloor> mod 30)"
  using remaining_time_fixed_step [of acct0 60] by (simp add: py_int_def)

section \<open>The clock\<close>

text \<open>
  C4, as stated, says that the core functions take the time as a parameter and never read
  a clock. In the source the only parameter of \<open>get_remaining_time\<close> is the account, and
  the time comes from \<open>datetime.now()\<close>: two calls on the same account, one second apart,
  return 30 and 29.
\<close>

theorem clock_read_counterexample:
  "get_remaining_time acct0 0 \<noteq> get_remaining_time acct0 1"
  by (simp add: get_remaining_time_def py_int_def)

text \<open>
  C4, amended. \<open>get_remaining_time\<close> and \<open>get_totp_code\<close> take the account only and read
  the system clock when called. Their results are determined by the clock reading and the
  secret: the remaining time is the same whenever two readings have the same whole second
  (for any two accounts), and at one reading the code is the same for accounts with the
  same secret.
\<close>

theorem results_depend_on_clock_and_secret:
  "(py_int t1 = py_int t2 \<longrightarrow> get_remaining_time a1 t1 = get_remaining_time a2 t2)
   \<and> (secret a1 = secret a2 \<longrightarrow> get_totp_code lib_now a1 t = get_totp_code lib_now a2 t)"
  by (simp add: get_remaining_time_def get_totp_code_def)

theorem results_depend_on_clock_and_secret_witness:
  "py_int (61 / 2) = py_int 30
   \<and> get_remaining_time acct0 (61 / 2) = get_remaining_time (acct0\<lparr>account_name := ''bob''\<rparr>) 30
   \<and> secret acct0 = secret (acct0\<lparr>account_name := ''bob''\<rparr>)
   \<and> get_totp_code (\<lambda>obj now. (totp_secret obj, \<lfloor>now / 30\<rfloor>)) acct0 0
       = get_totp_code (\<lambda>obj now. (totp_secret obj, \<lfloor>now / 30\<rfloor>)) (acct0\<lparr>account_name := ''bob''\<rparr>) 0"
proof -
  have f: "\<lfloor>61 / 2 :: real\<rfloor> = 30" by (simp add: floor_eq_iff)
  have p: "py_int (61 / 2) = py_int 30" by (simp add: py_int_def f)
  have s: "secret acct0 = secret (acct0\<lparr>account_name := ''bob''\<rparr>)" by simp
  note th = results_depend_on_clock_and_secret
    [of "61 / 2" 30 acct0 "acct0\<lparr>account_name := ''bob''\<rparr>"
        "\<lambda>obj now. (totp_secret obj, \<lfloor>now / 30\<rfloor>)" 0]
  from th p have r:
    "get_remaining_time acct0 (61 / 2) = get_remaining_time (acct0\<lparr>account_name := ''bob''\<rparr>) 30"
    by blast
  from th s have c:
    "get_totp_code (\<lambda>obj now. (totp_secret obj, \<lfloor>now / 30\<rfloor>)) acct0 0
       = get_totp_code (\<lambda>obj now. (totp_secret obj, \<lfloor>now / 30\<rfloor>)) (acct0\<lparr>account_name := ''bob''\<rparr>) 0"
    by blast
  from p r s c show ?thesis by (intro conjI)
qed

section \<open>Stored secrets are normalised\<close>

lemma of_char_upper_char:
  "(of_char (upper_char c) :: nat) =
     (if 97 \<le> (of_char c :: nat) \<and> (of_char c :: nat) \<le> 122 then of_char c - 32 else of_char c)"
  by (auto simp add: upper_char_def)

lemma upper_char_idem: "upper_char (upper_char c) = upper_char c"
proof -
  have n: "\<not> (97 \<le> (of_char (upper_char c) :: nat) \<and> (of_char (upper_char c) :: nat) \<le> 122)"
    unfolding of_char_upper_char
    by (cases "97 \<le> (of_char c :: nat) \<and> (of_char c :: nat) \<le> 122") auto
  have "upper_char (upper_char c) =
          (if 97 \<le> (of_char (upper_char c) :: nat) \<and> (of_char (upper_char c) :: nat) \<le> 122
           then char_of ((of_char (upper_char c) :: nat) - 32) else upper_char c)"
    by (rule upper_char_def)
  also have "\<dots> = upper_char c"
    using n by (rule if_not_P)
  finally show ?thesis .
qed

lemma upper_char_space: "upper_char c = CHR '' '' \<longleftrightarrow> c = CHR '' ''"
proof
  assume "upper_char c = CHR '' ''"
  then have "(of_char (upper_char c) :: nat) = 32" by simp
  then have "(of_char c :: nat) = 32" by (simp add: of_char_upper_char split: if_splits)
  then have "(of_char c :: nat) = of_char (CHR '' '')" by simp
  then show "c = CHR '' ''" by (simp only: of_char_eq_iff)
next
  assume "c = CHR '' ''"
  then show "upper_char c = CHR '' ''" by (simp add: upper_char_def)
qed

lemma normalize_secret_idem: "normalize_secret (normalize_secret s) = normalize_secret s"
  by (induction s) (simp_all add: normalize_secret_def str_upper_def str_remove_spaces_def
      upper_char_idem upper_char_space)

lemma add_account_keeps:
  "secrets_normalized db \<Longrightarrow> secrets_normalized (snd (add_account secret_ok commit_ok meth frm db))"
  by (simp add: add_account_def secrets_normalized_def MFAAccount_init_def normalize_secret_idem)

lemma edit_account_keeps:
  "secrets_normalized db \<Longrightarrow> secrets_normalized (snd (edit_account secret_ok commit_ok aid meth frm db))"
  by (auto simp add: edit_account_def secrets_normalized_def normalize_secret_idem list_all_iff
      split: option.splits)

lemma toggle_hidden_keeps:
  "secrets_normalized db \<Longrightarrow> secrets_normalized (snd (toggle_hidden commit_ok aid db))"
  by (auto simp add: toggle_hidden_def secrets_normalized_def list_all_iff split: option.splits)

lemma delete_account_keeps:
  "secrets_normalized db \<Longrightarrow> secrets_normalized (snd (delete_account commit_ok aid db))"
  by (auto simp add: delete_account_def secrets_normalized_def list_all_iff split: option.splits)

lemma reachable_secrets_normalized: "reachable db \<Longrightarrow> secrets_normalized db"
proof (induction rule: reachable.induct)
  case reachable_init
  show ?case by (simp add: secrets_normalized_def)
next
  case (reachable_add db secret_ok commit_ok meth frm)
  then show ?case by (simp add: add_account_keeps)
next
  case (reachable_edit db secret_ok commit_ok aid meth frm)
  then show ?case by (simp add: edit_account_keeps)
next
  case (reachable_toggle db commit_ok aid)
  then show ?case by (simp add: toggle_hidden_keeps)
next
  case (reachable_delete db commit_ok aid)
  then show ?case by (simp add: delete_account_keeps)
qed

lemma add_form0: "snd (add_account True True POST form0 []) = [row0]"
  by code_simp

text \<open>
  C9. Every secret stored through the add and edit handlers is in normal form: for every
  account of a table the application can reach, whatever the library accepts as a valid
  secret and whether or not a commit succeeds,
  \<open>account.secret == account.secret.upper().replace(' ', '')\<close>.
\<close>

theorem stored_secret_normalized:
  "reachable db \<Longrightarrow> a \<in> set db \<Longrightarrow> secret a = str_remove_spaces (str_upper (secret a))"
  using reachable_secrets_normalized [of db]
  by (simp add: secrets_normalized_def list_all_iff normalize_secret_def)

theorem stored_secret_normalized_witness:
  "reachable [row0] \<and> row0 \<in> set [row0]
   \<and> secret row0 = str_remove_spaces (str_upper (secret row0))"
proof -
  have r: "reachable [row0]"
    using reachable_add [OF reachable_init, of True True POST form0]
    by (simp only: add_form0)
  have m: "row0 \<in> set [row0]" by simp
  from stored_secret_normalized [OF r m] r m show ?thesis by simp
qed

section \<open>Evaluating the engine\<close>

text \<open>
  Rewrite rules that keep every intermediate word a numeral below \<open>2 ^ 32\<close>, so that the
  simplifier can run the 80 rounds of a block on concrete input.
\<close>

lemma replicate_numeral: "replicate (numeral k) x = x # replicate (pred_numeral k) x"
  by (simp add: numeral_eq_Suc)

lemma word32_of_nat_mod: "(of_nat (n mod 4294967296) :: word32) = of_nat n"
  by (simp add: word_eq_iff_unsigned [where ?'a = nat] unsigned_of_nat take_bit_eq_mod)

lemma rotl32_eval:
  "rotl32 n x = of_nat ((unat x * 2 ^ n) mod 4294967296) OR drop_bit (32 - n) x"
  by (simp only: rotl32_def word32_of_nat_mod push_bit_eq_mult of_nat_mult of_nat_power
      of_nat_numeral of_nat_unat ucast_id)

lemma sha1_rounds_step:
  "t < 80 \<Longrightarrow> sha1_rounds t win (a, b, c, d, e) =
     sha1_rounds (t + 1) (tl win @ [sha1_next win])
       (of_nat ((unat (rotl32 5 a) + unat (sha1_f t b c d) + unat e + unat (sha1_k t) + unat (hd win))
                 mod 4294967296), a, rotl32 30 b, c, d)"
  by (simp only: word32_of_nat_mod of_nat_add of_nat_unat ucast_id) (simp add: sha1_rounds.simps)

lemma sha1_rounds_done: "sha1_rounds 80 win s = s"
  by (cases s) (simp add: sha1_rounds.simps)

lemma sha1_add_eval:
  "sha1_add (a, b, c, d, e) (a', b', c', d', e') =
     (of_nat ((unat a + unat a') mod 4294967296), of_nat ((unat b + unat b') mod 4294967296),
      of_nat ((unat c + unat c') mod 4294967296), of_nat ((unat d + unat d') mod 4294967296),
      of_nat ((unat e + unat e') mod 4294967296))"
  by (simp only: word32_of_nat_mod of_nat_add of_nat_unat ucast_id sha1_add.simps)

lemmas sha1_eval =
  sha1_def sha1_pad_def sha1_init_def sha1_compress_def sha1_add_eval
  sha1_rounds_step sha1_rounds_done sha1_next_def sha1_f_def sha1_k_def rotl32_eval
  bytes_of_word64_def bytes_of_word32_def be32_def replicate_numeral numeral_2_eq_2 [symmetric]

lemma rfc_key_bytes:
  "rfc_key =
     [0x31, 0x32, 0x33, 0x34, 0x35, 0x36, 0x37, 0x38, 0x39, 0x30, 0x31, 0x32,
      0x33, 0x34, 0x35, 0x36, 0x37, 0x38, 0x39, 0x30]"
  by (simp add: rfc_key_def)

lemma secret_key_rfc: "secret_key ''GEZDGNBVGY3TQOJQGEZDGNBVGY3TQOJQ'' = Inr rfc_key"
  by (simp add: rfc_key_def secret_key_def normalize_def strip_def strip_padding_def str_upper_def
      upper_char_def is_whitespace_def b32_alphabet_def decode_def bits5_def byte_of_bits_def
      b32_value_def)

lemma hmac_sha1_rfc_counter0:
  "hmac_sha1 rfc_key (bytes_of_word64 0) =
     [0xCC, 0x93, 0xCF, 0x18, 0x50, 0x8D, 0x94, 0x93, 0x4C, 0x64, 0xB6, 0x5D,
      0x8B, 0xA7, 0x66, 0x7F, 0xB7, 0xCD, 0xE4, 0xB0]"
  by (simp add: rfc_key_bytes hmac_sha1_def hmac_key_def sha1_eval)

lemma hotp_rfc_counter0: "hotp rfc_key 0 6 = Inr ''755224''"
  by (simp add: hotp_def hmac_sha1_rfc_counter0 dynamic_truncate_def be32_def format_code_def
      zero_pad_def decimal.simps digit_char_def)

section \<open>The shape of a code\<close>

lemma digit_char_is_digit: "n < 10 \<Longrightarrow> is_digit (digit_char n)"
proof -
  assume "n < 10"
  moreover have "list_all is_digit ''0123456789''" by (simp add: is_digit_def)
  ultimately show ?thesis by (simp add: digit_char_def list_all_length)
qed

lemma decimal_digits: "list_all is_digit (decimal n)"
proof (induction n rule: decimal.induct)
  case (1 n)
  show ?case
  proof (cases "n < 10")
    case True
    then show ?thesis by (simp add: decimal.simps [of n] digit_char_is_digit)
  next
    case False
    with 1 show ?thesis by (simp add: decimal.simps [of n] digit_char_is_digit)
  qed
qed

lemma length_decimal: "n < 10 ^ d \<Longrightarrow> 0 < d \<Longrightarrow> length (decimal n) \<le> d"
proof (induction d arbitrary: n)
  case 0
  then show ?case by simp
next
  case (Suc d)
  show ?case
  proof (cases "n < 10")
    case True
    then show ?thesis by (simp add: decimal.simps [of n])
  next
    case False
    with Suc.prems have d: "0 < d" by (cases d) simp_all
    from Suc.prems have "n div 10 < 10 ^ d" by (simp add: less_mult_imp_div_less mult.commute)
    then have "length (decimal (n div 10)) \<le> d" using d by (rule Suc.IH)
    with False show ?thesis by (simp add: decimal.simps [of n])
  qed
qed

lemma format_code_shape:
  "0 < digits \<Longrightarrow> length (format_code digits v) = digits \<and> list_all is_digit (format_code digits v)"
proof -
  assume d: "0 < digits"
  have "v mod 10 ^ digits < 10 ^ digits" by simp
  with d have "length (decimal (v mod 10 ^ digits)) \<le> digits" by (simp add: length_decimal)
  moreover have "list_all is_digit (replicate k (CHR ''0''))" for k
    by (induction k) (simp_all add: is_digit_def)
  ultimately show ?thesis
    by (simp add: format_code_def zero_pad_def decimal_digits)
qed

lemma hotp_shape:
  "1 \<le> digits \<Longrightarrow> digits \<le> 10 \<Longrightarrow>
   \<exists>code. hotp key counter digits = Inr code \<and> length code = digits \<and> list_all is_digit code"
  by (simp add: hotp_def format_code_shape)

lemma totp_shape:
  "0 < step \<Longrightarrow> 1 \<le> digits \<Longrightarrow> digits \<le> 10 \<Longrightarrow>
   \<exists>code. totp key step digits t = Inr code \<and> length code = digits \<and> list_all is_digit code"
  by (simp add: totp_def hotp_shape)

lemma secret_key_acct0: "secret_key (secret acct0) = Inr rfc_key"
  by (simp add: acct0_def secret_key_rfc)

lemma get_totp_code_valid:
  "secret_key (secret self) = Inr key \<Longrightarrow> get_totp_code totp_now self now = totp key 30 6 now"
  by (simp add: get_totp_code_def totp_now_def TOTP_new_def)

section \<open>The claims about the code itself\<close>

text \<open>
  C1. The known-answer vector of RFC 4226: the key is the ASCII bytes of
  \<open>12345678901234567890\<close>, supplied as the Base32 text \<open>GEZDGNBVGY3TQOJQGEZDGNBVGY3TQOJQ\<close>;
  with counter 0 and six digits the code is exactly \<open>755224\<close>, and that is what
  \<open>get_totp_code\<close> returns for an account with this secret while the clock is in the first
  window (counter 0).
\<close>

theorem hotp_rfc4226_counter0:
  "rfc_key = map of_char ''12345678901234567890''
   \<and> secret_key ''GEZDGNBVGY3TQOJQGEZDGNBVGY3TQOJQ'' = Inr rfc_key
   \<and> hotp rfc_key 0 6 = Inr ''755224''
   \<and> get_totp_code totp_now acct0 0 = Inr ''755224''"
proof -
  have "get_totp_code totp_now acct0 0 = totp rfc_key 30 6 0"
    using secret_key_acct0 by (rule get_totp_code_valid)
  also have "\<dots> = hotp rfc_key 0 6" by (simp add: totp_def)
  finally have "get_totp_code totp_now acct0 0 = Inr ''755224''" by (simp only: hotp_rfc_counter0)
  then show ?thesis using secret_key_rfc hotp_rfc_counter0 rfc_key_def by (intro conjI)
qed

text \<open>
  C5. Two times in the same window give the same code: for every key, step and digit
  count, if \<open>floor(t1 / step) = floor(t2 / step)\<close> then \<open>totp\<close> returns the same result at
  \<open>t1\<close> and at \<open>t2\<close>; and for an account with a valid secret, two clock readings in the
  same 30 second window make \<open>get_totp_code\<close> return one and the same code.
\<close>

theorem same_window_same_code:
  "(\<lfloor>t1 / real step\<rfloor> = \<lfloor>t2 / real step\<rfloor> \<longrightarrow> totp key step digits t1 = totp key step digits t2)
   \<and> (secret_key (secret self) = Inr key \<and> \<lfloor>t1 / 30\<rfloor> = \<lfloor>t2 / 30\<rfloor> \<longrightarrow>
        (\<exists>code. get_totp_code totp_now self t1 = Inr code \<and> get_totp_code totp_now self t2 = Inr code))"
proof (intro conjI impI)
  assume "\<lfloor>t1 / real step\<rfloor> = \<lfloor>t2 / real step\<rfloor>"
  then show "totp key step digits t1 = totp key step digits t2" by (simp add: totp_def)
next
  assume a: "secret_key (secret self) = Inr key \<and> \<lfloor>t1 / 30\<rfloor> = \<lfloor>t2 / 30\<rfloor>"
  then have c: "get_totp_code totp_now self t1 = totp key 30 6 t1" "get_totp_code totp_now self t2 = totp key 30 6 t2"
    by (simp_all add: get_totp_code_valid)
  from a have e: "totp key 30 6 t1 = totp key 30 6 t2" by (simp add: totp_def)
  obtain code where "totp key 30 6 t1 = Inr code"
    using totp_shape [of 30 6 key t1] by auto
  with c e have "get_totp_code totp_now self t1 = Inr code \<and> get_totp_code totp_now self t2 = Inr code"
    by metis
  then show "\<exists>code. get_totp_code totp_now self t1 = Inr code \<and> get_totp_code totp_now self t2 = Inr code" ..
qed

theorem same_window_same_code_witness:
  "\<lfloor>31 / real 30\<rfloor> = \<lfloor>59 / real 30\<rfloor> \<and> totp rfc_key 30 6 31 = totp rfc_key 30 6 59
   \<and> secret_key (secret acct0) = Inr rfc_key \<and> \<lfloor>31 / 30 :: real\<rfloor> = \<lfloor>59 / 30 :: real\<rfloor>
   \<and> (\<exists>code. get_totp_code totp_now acct0 31 = Inr code \<and> get_totp_code totp_now acct0 59 = Inr code)"
proof -
  have f: "\<lfloor>31 / 30 :: real\<rfloor> = 1" "\<lfloor>59 / 30 :: real\<rfloor> = 1" by (simp_all add: floor_eq_iff)
  then have w: "\<lfloor>31 / real 30\<rfloor> = \<lfloor>59 / real 30\<rfloor>" "\<lfloor>31 / 30 :: real\<rfloor> = \<lfloor>59 / 30 :: real\<rfloor>"
    by simp_all
  note th = same_window_same_code [of 31 30 59 rfc_key 6 acct0]
  from th w(1) have a: "totp rfc_key 30 6 31 = totp rfc_key 30 6 59" by blast
  from th w(2) secret_key_acct0
  have b: "\<exists>code. get_totp_code totp_now acct0 31 = Inr code \<and> get_totp_code totp_now acct0 59 = Inr code" by blast
  from w(1) a secret_key_acct0 w(2) b show ?thesis by (intro conjI)
qed

text \<open>
  C7. For every valid secret the code has exactly \<open>digits\<close> characters, each a decimal
  digit: this holds of \<open>totp\<close> for every digit count from 1 to 10 and every positive step,
  and of \<open>get_totp_code\<close> with its six digits. Small values are zero-padded on the left:
  six digits and the value 42 give \<open>000042\<close>.
\<close>

theorem totp_code_format:
  "secret_key (secret self) = Inr key \<Longrightarrow> 0 < step \<Longrightarrow> 1 \<le> digits \<Longrightarrow> digits \<le> 10 \<Longrightarrow>
   (\<exists>code. totp key step digits t = Inr code \<and> length code = digits \<and> list_all is_digit code)
   \<and> (\<exists>code. get_totp_code totp_now self now = Inr code \<and> length code = 6 \<and> list_all is_digit code)
   \<and> format_code 6 42 = ''000042''"
proof (intro conjI)
  assume "0 < step" "1 \<le> digits" "digits \<le> 10"
  then show "\<exists>code. totp key step digits t = Inr code \<and> length code = digits \<and> list_all is_digit code"
    by (rule totp_shape)
next
  assume "secret_key (secret self) = Inr key"
  then have "get_totp_code totp_now self now = totp key 30 6 now" by (rule get_totp_code_valid)
  then show "\<exists>code. get_totp_code totp_now self now = Inr code \<and> length code = 6 \<and> list_all is_digit code"
    using totp_shape [of 30 6 key now] by simp
next
  show "format_code 6 42 = ''000042''"
    by (simp add: format_code_def zero_pad_def decimal.simps digit_char_def replicate_numeral)
qed

theorem totp_code_format_witness:
  "secret_key (secret acct0) = Inr rfc_key \<and> (0::nat) < 30 \<and> (1::nat) \<le> 8 \<and> (8::nat) \<le> 10
   \<and> (\<exists>code. totp rfc_key 30 8 59 = Inr code \<and> length code = 8 \<and> list_all is_digit code)
   \<and> (\<exists>code. get_totp_code totp_now acct0 59 = Inr code \<and> length code = 6 \<and> list_all is_digit code)"
proof -
  have n: "(0::nat) < 30" "(1::nat) \<le> 8" "(8::nat) \<le> 10" by simp_all
  from totp_code_format [OF secret_key_acct0 n, of 59 59] secret_key_acct0 n
  show ?thesis by (intro conjI) blast+
qed

end
